theory Spec2Isabelle
  imports Main "HOL-Library.AList"
begin

section \<open>Data model of \<^verbatim>\<open>internal/core/vagrantfile.go\<close>\<close>

text \<open>
  Values of Go type \<^verbatim>\<open>interface{}\<close> that the configuration tree holds. The Go code
  inspects them with type assertions, so the model is a closed variant with one
  constructor per dynamic type the code distinguishes.
  \<^item> \<open>VNil\<close> is the nil interface value.
  \<^item> \<open>VConfigData p\<close> is a \<^verbatim>\<open>*component.ConfigData\<close>; the pointer may be nil
    (\<open>None\<close>), otherwise it points to a struct whose only field is \<^verbatim>\<open>Data\<close>.
  \<^item> A Go map is an association list read with \<open>map_of\<close>. A nil map reads like an
    empty one and is the empty list.
  \<^item> \<open>VIfaceMap\<close> is \<^verbatim>\<open>map[interface{}]interface{}\<close>; the order of the list is the
    order in which \<^verbatim>\<open>range\<close> visits the entries.
\<close>

datatype val =
    VNil
  | VString string
  | VSymbol string
  | VRawRuby nat
  | VSlice "val list"
  | VStrMap "(string \<times> val) list"
  | VConfigData "(string \<times> val) list option"
  | VIfaceMap "(val \<times> val) list"
  | VInt int
  | VBool bool

type_synonym strmap = "(string \<times> val) list"

type_synonym configdata = "strmap option"

text \<open>What \<^verbatim>\<open>%T\<close> prints for a value.\<close>

fun type_name :: "val \<Rightarrow> string" where
  "type_name VNil = ''<nil>''"
| "type_name (VString s) = ''string''"
| "type_name (VSymbol s) = ''types.Symbol''"
| "type_name (VRawRuby r) = ''*vagrant_plugin_sdk.Config_RawRubyValue''"
| "type_name (VSlice xs) = ''[]interface {}''"
| "type_name (VStrMap m) = ''map[string]interface {}''"
| "type_name (VConfigData c) = ''*component.ConfigData''"
| "type_name (VIfaceMap m) = ''map[interface {}]interface {}''"
| "type_name (VInt i) = ''int''"
| "type_name (VBool b) = ''bool''"

datatype LoadLocation =
    VAGRANTFILE_BOX
  | VAGRANTFILE_BASIS
  | VAGRANTFILE_PROJECT
  | VAGRANTFILE_TARGET
  | VAGRANTFILE_PROVIDER

text \<open>The \<^verbatim>\<open>uint8\<close> behind each location; a higher value has a higher precedence.\<close>

fun loc_value :: "LoadLocation \<Rightarrow> nat" where
  "loc_value VAGRANTFILE_BOX = 0"
| "loc_value VAGRANTFILE_BASIS = 1"
| "loc_value VAGRANTFILE_PROJECT = 2"
| "loc_value VAGRANTFILE_TARGET = 3"
| "loc_value VAGRANTFILE_PROVIDER = 4"

definition ValidRootLocations :: "LoadLocation set" where
  "ValidRootLocations = {VAGRANTFILE_BASIS, VAGRANTFILE_PROJECT, VAGRANTFILE_TARGET}"

text \<open>
  Errors are values. The constructors follow the \<^verbatim>\<open>fmt.Errorf\<close> calls of the file and
  carry exactly the arguments formatted into the message. \<open>External\<close> stands for an
  error produced by a collaborator (a plugin, the value mapper, the Ruby client).
\<close>

datatype error =
    NoConfigForNamespace string
  | InvalidNamespaceType string
  | NoLookupPath
  | LookupFailed "string list"
  | EmptyTargetValue
  | NoPluginSet string
  | InvalidConfigType string string
  | BadValueType string
  | AddTargetSourceFailed error
  | AddProviderSourceFailed error
  | InitTargetFailed error
  | External nat

text \<open>A Go panic ends the call without a return value.\<close>

datatype panic = NilDereference | IndexOutOfRange | TypeAssertion

datatype 'a outcome = Panic panic | Return 'a

type_synonym addr = nat
type_synonym plugin = nat
type_synonym origin = nat

record subregistration =
  scope :: string
  plugins :: "plugin list"

record registration =
  reg_identifier :: string
  plugin :: "plugin option"
  is_set :: bool
  subregistrations :: "(string \<times> subregistration) list"

text \<open>
  \<open>'h\<close> is the wire form \<^verbatim>\<open>*vagrant_plugin_sdk.Args_Hash\<close>, which this file only
  passes to the value mapper. \<open>proto\<close> is \<^verbatim>\<open>vagrant_server.Vagrantfile\<close>.
\<close>

record 'h proto =
  Unfinalized :: "'h option"
  Finalized :: "'h option"

record 'h source =
  base :: "'h proto"
  finalized :: configdata
  unfinalized :: configdata

text \<open>What a cleanup chain holds: closing another instance, or a task of a collaborator.\<close>

datatype closer = CloseVagrantfile addr | ExternalTask nat

text \<open>
  \<^verbatim>\<open>plugin.NewInternal\<close> binds the broker and cache of an origin scope to the cleanup
  chain of one instance.
\<close>

datatype internal = Internal origin addr

text \<open>
  The \<^verbatim>\<open>Vagrantfile\<close> struct. The cache maps a key to the address of the cached
  instance. The logger, the mutex, the mappers and the Ruby client are not fields of
  the model: the last two are shared by every instance and live in the environment.
  A source is held by value: the operations modelled here only ever update the source
  at the instance's own final location, and no other instance reads that field of it.
\<close>

record 'h vagrantfile =
  cache :: "string \<rightharpoonup> addr"
  cleanup :: "closer list"
  origin :: "origin option"
  registrations :: "string \<rightharpoonup> registration"
  root :: configdata
  sources :: "LoadLocation \<rightharpoonup> 'h source"
  internal :: "internal option"

section \<open>Read accessors\<close>

definition GetConfig :: "'h vagrantfile \<Rightarrow> string \<Rightarrow> (error + configdata) outcome" where
  "GetConfig v namespace =
     (case root v of
        None \<Rightarrow> Panic NilDereference
      | Some data \<Rightarrow>
          (case map_of data namespace of
             None \<Rightarrow> Return (Inl (NoConfigForNamespace namespace))
           | Some raw \<Rightarrow>
               (case raw of
                  VConfigData c \<Rightarrow> Return (Inr c)
                | _ \<Rightarrow> Return (Inl (InvalidNamespaceType namespace)))))"

text \<open>\<open>None\<close> is the nil map that \<^verbatim>\<open>getNamespace\<close> returns for a missing namespace.\<close>

definition getNamespace :: "'h vagrantfile \<Rightarrow> string \<Rightarrow> strmap option outcome" where
  "getNamespace v n =
     (case root v of
        None \<Rightarrow> Panic NilDereference
      | Some data \<Rightarrow>
          (case map_of data n of
             None \<Rightarrow> Return None
           | Some raw \<Rightarrow>
               (case raw of
                  VConfigData c \<Rightarrow>
                    (case c of None \<Rightarrow> Panic NilDereference | Some d \<Rightarrow> Return (Some d))
                | _ \<Rightarrow> Return None)))"

text \<open>
  \<^verbatim>\<open>result = v.getNamespace(path[0])\<close> stores a map in a variable of type
  \<^verbatim>\<open>interface{}\<close>: the interface value carries the map type even when the map is
  nil, so it is never the nil interface.
\<close>

definition iface_of_map :: "strmap option \<Rightarrow> val" where
  "iface_of_map m = VStrMap (case m of None \<Rightarrow> [] | Some d \<Rightarrow> d)"

text \<open>The \<^verbatim>\<open>range\<close> loop of \<^verbatim>\<open>GetValue\<close> over an interface-keyed map.\<close>

fun lookup_iface :: "(val \<times> val) list \<Rightarrow> string \<Rightarrow> val option" where
  "lookup_iface [] seg = None"
| "lookup_iface ((key, x) # im) seg =
     (if key = VString seg then Some x
      else if key = VSymbol seg then Some x
      else lookup_iface im seg)"

text \<open>
  The loop of \<^verbatim>\<open>GetValue\<close> from index 1: \<open>path\<close> is the whole path (the error is
  built from it before the loop), \<open>result\<close> the current value, the list the segments
  still to look up.
\<close>

fun walk :: "string list \<Rightarrow> val \<Rightarrow> string list \<Rightarrow> (error + val) outcome" where
  "walk path result [] = Return (Inr result)"
| "walk path result (seg # rest) =
     (case result of
        VStrMap sm \<Rightarrow>
          (case map_of sm seg of
             Some r \<Rightarrow> walk path r rest
           | None \<Rightarrow> Return (Inl (LookupFailed path)))
      | VConfigData cd \<Rightarrow>
          (case cd of
             None \<Rightarrow> Panic NilDereference
           | Some d \<Rightarrow>
               (case map_of d seg of
                  Some r \<Rightarrow> walk path r rest
                | None \<Rightarrow> Return (Inl (LookupFailed path))))
      | VIfaceMap im \<Rightarrow>
          (case lookup_iface im seg of
             Some r \<Rightarrow> walk path r rest
           | None \<Rightarrow> Return (Inl (LookupFailed path)))
      | _ \<Rightarrow> Return (Inl (LookupFailed path)))"

definition GetValue :: "'h vagrantfile \<Rightarrow> string list \<Rightarrow> (error + val) outcome" where
  "GetValue v path =
     (case path of
        [] \<Rightarrow> Return (Inl NoLookupPath)
      | n # rest \<Rightarrow>
          (case getNamespace v n of
             Panic p \<Rightarrow> Panic p
           | Return ns \<Rightarrow>
               (let result = iface_of_map ns
                in if result = VNil then Return (Inl (LookupFailed path))
                   else walk path result rest)))"

text \<open>The symbols of the defined-keys list, in order; other entries are skipped.\<close>

fun symbol_names :: "val list \<Rightarrow> string list" where
  "symbol_names [] = []"
| "symbol_names (x # xs) =
     (case x of VSymbol s \<Rightarrow> s # symbol_names xs | _ \<Rightarrow> symbol_names xs)"

definition TargetNames :: "'h vagrantfile \<Rightarrow> (string list \<times> error option) outcome" where
  "TargetNames v =
     (case getNamespace v ''vm'' of
        Panic p \<Rightarrow> Panic p
      | Return None \<Rightarrow> Return ([], None)
      | Return (Some vm) \<Rightarrow>
          (case map_of vm ''__defined_vm_keys'' of
             None \<Rightarrow> Return ([], None)
           | Some dvms \<Rightarrow>
               (case dvms of
                  VSlice vmsList \<Rightarrow>
                    (let list = symbol_names vmsList
                     in Return (if list = [] then [''default''] else list, None))
                | _ \<Rightarrow> Return ([], None))))"

definition PrimaryTargetName :: "'h vagrantfile \<Rightarrow> (string \<times> error option) outcome" where
  "PrimaryTargetName v =
     (case TargetNames v of
        Panic p \<Rightarrow> Panic p
      | Return (list, err) \<Rightarrow>
          (case err of
             Some e \<Rightarrow> Return ([], Some e)
           | None \<Rightarrow>
               (case list of
                  [] \<Rightarrow> Panic IndexOutOfRange
                | n # rest \<Rightarrow> Return (n, None))))"

section \<open>Collaborators\<close>

text \<open>
  Everything the file calls but does not define is a parameter:
  \<^item> \<open>map_config\<close> and \<open>map_hash\<close> are \<^verbatim>\<open>dynamic.Map\<close> with the instance's mappers, to a
    \<^verbatim>\<open>*component.ConfigData\<close> and to a \<^verbatim>\<open>*vagrant_plugin_sdk.Args_Hash\<close>;
  \<^item> \<open>plugin_component\<close> is \<^verbatim>\<open>plugin.Component(component.ConfigType)\<close> (the error it
    returns, if any), \<open>config_merge\<close> and \<open>config_finalize\<close> are the \<^verbatim>\<open>Merge\<close> and
    \<^verbatim>\<open>Finalize\<close> of that plugin's \<^verbatim>\<open>core.Config\<close>;
  \<^item> \<open>ParseVagrantfileSubvm\<close> and \<open>ParseVagrantfileProvider\<close> are the Ruby client;
  \<^item> \<open>range_order\<close> is the order in which the Go runtime visits the keys of a map, given
    a listing of those keys. The language leaves it unspecified.
  Calls to plugins and to the Ruby client are recorded, in order, in a list of \<open>call\<close>.
\<close>

record 'h env =
  map_config :: "'h option \<Rightarrow> error + configdata"
  map_hash :: "strmap \<Rightarrow> error + 'h option"
  plugin_component :: "plugin \<Rightarrow> error option"
  config_merge :: "plugin \<Rightarrow> configdata \<Rightarrow> configdata \<Rightarrow> error + configdata"
  config_finalize :: "plugin \<Rightarrow> configdata \<Rightarrow> error + configdata"
  ParseVagrantfileSubvm :: "nat \<Rightarrow> error + 'h option"
  ParseVagrantfileProvider :: "string \<Rightarrow> nat \<Rightarrow> error + 'h option"
  range_order :: "string list \<Rightarrow> string list"

datatype call =
    ComponentCall plugin
  | MergeCall plugin configdata configdata
  | FinalizeCall plugin configdata
  | ParseSubvmCall nat
  | ParseProviderCall string nat

section \<open>Merge and finalize\<close>

definition componentForKey ::
  "'h env \<Rightarrow> 'h vagrantfile \<Rightarrow> string \<Rightarrow> call list \<Rightarrow> (error + plugin) \<times> call list" where
  "componentForKey env v namespace tr =
     (case registrations v namespace of
        None \<Rightarrow> (Inl (NoPluginSet namespace), tr)
      | Some reg \<Rightarrow>
          (case plugin reg of
             None \<Rightarrow> (Inl (NoPluginSet namespace), tr)
           | Some p \<Rightarrow>
               (case plugin_component env p of
                  Some e \<Rightarrow> (Inl e, tr @ [ComponentCall p])
                | None \<Rightarrow> (Inr p, tr @ [ComponentCall p]))))"

text \<open>
  The tail of one iteration of \<^verbatim>\<open>merge\<close>, for a key that is not on exactly one side: the
  two type assertions and the component's \<^verbatim>\<open>Merge\<close>.
\<close>

definition merge_values ::
  "'h env \<Rightarrow> plugin \<Rightarrow> val \<Rightarrow> val \<Rightarrow> call list \<Rightarrow> (error + configdata) \<times> call list" where
  "merge_values env c rawBase rawToMerge tr =
     (case rawBase of
        VConfigData valBase \<Rightarrow>
          (case rawToMerge of
             VConfigData valToMerge \<Rightarrow>
               (config_merge env c valBase valToMerge, tr @ [MergeCall c valBase valToMerge])
           | _ \<Rightarrow> (Inl (BadValueType (type_name rawToMerge)), tr))
      | _ \<Rightarrow> (Inl (BadValueType (type_name rawBase)), tr))"

text \<open>
  The main loop of \<^verbatim>\<open>merge\<close> over the collected keys, in the order \<open>ks\<close>. A key missing
  from a map reads as the zero value, the nil interface.
\<close>

fun merge_keys ::
  "'h env \<Rightarrow> 'h vagrantfile \<Rightarrow> strmap \<Rightarrow> strmap \<Rightarrow> string list \<Rightarrow> strmap \<Rightarrow> call list
     \<Rightarrow> (error + configdata) \<times> call list" where
  "merge_keys env v b t [] result tr = (Inr (Some result), tr)"
| "merge_keys env v b t (k # ks) result tr =
     (case componentForKey env v k tr of
        (Inl e, tr1) \<Rightarrow> (Inl e, tr1)
      | (Inr c, tr1) \<Rightarrow>
          (case map_of b k of
             Some rawBase \<Rightarrow>
               (case map_of t k of
                  None \<Rightarrow> merge_keys env v b t ks (AList.update k rawBase result) tr1
                | Some rawToMerge \<Rightarrow>
                    (case merge_values env c rawBase rawToMerge tr1 of
                       (Inl e, tr2) \<Rightarrow> (Inl e, tr2)
                     | (Inr r, tr2) \<Rightarrow>
                         merge_keys env v b t ks (AList.update k (VConfigData r) result) tr2))
           | None \<Rightarrow>
               (case map_of t k of
                  Some rawToMerge \<Rightarrow>
                    merge_keys env v b t ks (AList.update k rawToMerge result) tr1
                | None \<Rightarrow>
                    (case merge_values env c VNil VNil tr1 of
                       (Inl e, tr2) \<Rightarrow> (Inl e, tr2)
                     | (Inr r, tr2) \<Rightarrow>
                         merge_keys env v b t ks (AList.update k (VConfigData r) result) tr2))))"

definition merge ::
  "'h env \<Rightarrow> 'h vagrantfile \<Rightarrow> configdata \<Rightarrow> configdata \<Rightarrow> call list
     \<Rightarrow> ((error + configdata) \<times> call list) outcome" where
  "merge env v base_cfg toMerge tr =
     (case base_cfg of
        None \<Rightarrow> Panic NilDereference
      | Some b \<Rightarrow>
          (case toMerge of
             None \<Rightarrow> Panic NilDereference
           | Some t \<Rightarrow>
               Return (merge_keys env v b t
                         (range_order env (remdups (map fst b @ map fst t))) [] tr)))"

text \<open>
  The loop of \<^verbatim>\<open>finalize\<close>. Its results are named, and the bare \<^verbatim>\<open>return\<close> after a
  failed component lookup or a failed \<^verbatim>\<open>Finalize\<close> hands back the tree built so far
  next to the error; only the type mismatch returns nil.
\<close>

fun finalize_keys ::
  "'h env \<Rightarrow> 'h vagrantfile \<Rightarrow> strmap \<Rightarrow> string list \<Rightarrow> strmap \<Rightarrow> call list
     \<Rightarrow> (configdata \<times> error option) \<times> call list" where
  "finalize_keys env v d [] result tr = ((Some result, None), tr)"
| "finalize_keys env v d (k # ks) result tr =
     (let x = (case map_of d k of None \<Rightarrow> VNil | Some y \<Rightarrow> y)
      in case componentForKey env v k tr of
           (Inl e, tr1) \<Rightarrow> ((Some result, Some e), tr1)
         | (Inr c, tr1) \<Rightarrow>
             (case x of
                VConfigData data \<Rightarrow>
                  (case config_finalize env c data of
                     Inl e \<Rightarrow> ((Some result, Some e), tr1 @ [FinalizeCall c data])
                   | Inr r \<Rightarrow>
                       finalize_keys env v d ks (AList.update k (VConfigData r) result)
                         (tr1 @ [FinalizeCall c data]))
              | _ \<Rightarrow> ((None, Some (InvalidConfigType k (type_name x))), tr1)))"

definition finalize ::
  "'h env \<Rightarrow> 'h vagrantfile \<Rightarrow> configdata \<Rightarrow> call list
     \<Rightarrow> ((configdata \<times> error option) \<times> call list) outcome" where
  "finalize env v conf tr =
     (case conf of
        None \<Rightarrow> Panic NilDereference
      | Some d \<Rightarrow>
          Return (finalize_keys env v d (range_order env (remdups (map fst d))) [] tr))"

section \<open>Sources and initialization\<close>

definition generateConfig :: "'h env \<Rightarrow> 'h option \<Rightarrow> error + configdata" where
  "generateConfig env value = map_config env value"

definition newSource :: "'h env \<Rightarrow> 'h proto \<Rightarrow> 'h source \<times> error option" where
  "newSource env f =
     (let s = \<lparr>base = f, finalized = None, unfinalized = None\<rparr>
      in case generateConfig env (Unfinalized f) of
           Inl e \<Rightarrow> (s, Some e)
         | Inr u \<Rightarrow>
             (let s1 = s\<lparr>unfinalized := u\<rparr>
              in case Finalized f of
                   None \<Rightarrow> (s1, None)
                 | Some fin \<Rightarrow>
                     (case generateConfig env (Some fin) of
                        Inl e \<Rightarrow> (s1, Some e)
                      | Inr fz \<Rightarrow> (s1\<lparr>finalized := fz\<rparr>, None))))"

text \<open>\<^verbatim>\<open>Source\<close>: \<open>vf\<close> is a pointer, \<open>None\<close> when nil.\<close>

definition Source ::
  "'h env \<Rightarrow> 'h vagrantfile \<Rightarrow> 'h proto option \<Rightarrow> LoadLocation
     \<Rightarrow> error option \<times> 'h vagrantfile" where
  "Source env v vf l =
     (case vf of
        None \<Rightarrow> (None, v)
      | Some f \<Rightarrow>
          (case newSource env f of
             (s, Some e) \<Rightarrow> (Some e, v)
           | (s, None) \<Rightarrow> (None, v\<lparr>sources := (sources v)(l \<mapsto> s)\<rparr>)))"

definition setFinalized ::
  "'h env \<Rightarrow> 'h source \<Rightarrow> configdata \<Rightarrow> ('h source \<times> error option) outcome" where
  "setFinalized env s f =
     (let s1 = s\<lparr>finalized := f\<rparr>
      in case f of
           None \<Rightarrow> Panic NilDereference
         | Some d \<Rightarrow>
             (case map_hash env d of
                Inl e \<Rightarrow> Return (s1, Some e)
              | Inr raw \<Rightarrow> Return (s1\<lparr>base := (base s1)\<lparr>Finalized := raw\<rparr>\<rparr>, None)))"

text \<open>The loop of \<^verbatim>\<open>generate\<close> from index 1, with the tree merged so far.\<close>

fun generate_from ::
  "'h env \<Rightarrow> 'h vagrantfile \<Rightarrow> configdata \<Rightarrow> LoadLocation list \<Rightarrow> call list
     \<Rightarrow> ((error + configdata) \<times> call list) outcome" where
  "generate_from env v c [] tr = Return (Inr c, tr)"
| "generate_from env v c (i # locs) tr =
     (case sources v i of
        None \<Rightarrow> generate_from env v c locs tr
      | Some s \<Rightarrow>
          (if c = None then generate_from env v (unfinalized s) locs tr
           else (case merge env v c (unfinalized s) tr of
                   Panic p \<Rightarrow> Panic p
                 | Return (Inl e, tr1) \<Rightarrow> Return (Inl e, tr1)
                 | Return (Inr c1, tr1) \<Rightarrow> generate_from env v c1 locs tr1)))"

definition generate ::
  "'h env \<Rightarrow> 'h vagrantfile \<Rightarrow> LoadLocation list \<Rightarrow> call list
     \<Rightarrow> ((error + configdata) \<times> call list) outcome" where
  "generate env v locs tr =
     (case locs of
        [] \<Rightarrow> Return (Inr (Some []), tr)
      | l0 # rest \<Rightarrow>
          (case sources v l0 of
             None \<Rightarrow> Panic NilDereference
           | Some s \<Rightarrow> generate_from env v (unfinalized s) rest tr))"

definition all_locations :: "LoadLocation list" where
  "all_locations =
     [VAGRANTFILE_BOX, VAGRANTFILE_BASIS, VAGRANTFILE_PROJECT, VAGRANTFILE_TARGET,
      VAGRANTFILE_PROVIDER]"

text \<open>The locations \<^verbatim>\<open>Init\<close> collects: those with a source, in ascending order.\<close>

definition present_locations :: "'h vagrantfile \<Rightarrow> LoadLocation list" where
  "present_locations v = filter (\<lambda>i. sources v i \<noteq> None) all_locations"

text \<open>
  The part of \<^verbatim>\<open>Init\<close> after the early return: generate, finalize, store. \<open>s\<close> is the
  source pointer of the same name, given by its location; \<open>None\<close> is nil.
\<close>

definition init_full ::
  "'h env \<Rightarrow> 'h vagrantfile \<Rightarrow> LoadLocation list \<Rightarrow> (LoadLocation \<times> 'h source) option
     \<Rightarrow> call list \<Rightarrow> (error option \<times> 'h vagrantfile \<times> call list) outcome" where
  "init_full env v locations s tr =
     (case generate env v locations tr of
        Panic p \<Rightarrow> Panic p
      | Return (Inl e, tr1) \<Rightarrow> Return (Some e, v, tr1)
      | Return (Inr c, tr1) \<Rightarrow>
          (case finalize env v c tr1 of
             Panic p \<Rightarrow> Panic p
           | Return ((r, err), tr2) \<Rightarrow>
               (let v1 = v\<lparr>root := r\<rparr>
                in case err of
                     Some e \<Rightarrow> Return (Some e, v1, tr2)
                   | None \<Rightarrow>
                       (case s of
                          None \<Rightarrow> Return (None, v1, tr2)
                        | Some (final, src) \<Rightarrow>
                            (case setFinalized env src (root v1) of
                               Panic p \<Rightarrow> Panic p
                             | Return (src1, err1) \<Rightarrow>
                                 Return (err1, v1\<lparr>sources := (sources v1)(final \<mapsto> src1)\<rparr>,
                                         tr2))))))"

definition Init ::
  "'h env \<Rightarrow> 'h vagrantfile \<Rightarrow> call list
     \<Rightarrow> (error option \<times> 'h vagrantfile \<times> call list) outcome" where
  "Init env v tr =
     (let locations = present_locations v
      in if locations \<noteq> [] \<and> last locations \<in> ValidRootLocations
         then (case sources v (last locations) of
                 None \<Rightarrow> Panic NilDereference
               | Some s \<Rightarrow>
                   (if finalized s \<noteq> None
                    then Return (None, v\<lparr>root := finalized s\<rparr>, tr)
                    else init_full env v locations (Some (last locations, s)) tr))
         else init_full env v locations None tr)"

section \<open>Clones and target configurations\<close>

text \<open>
  Instances are reached through pointers, and the cache of one instance holds pointers
  to others, so instances live in a store. \<open>next_addr\<close> is the next free address,
  \<open>scope_closers\<close> the cleanup chain of each origin scope (what \<^verbatim>\<open>origin.Closer\<close>
  appends to), \<open>calls\<close> the calls made to plugins and to the Ruby client so far.
  The cache is \<^verbatim>\<open>cacher.Cache\<close> of the plugin SDK, read as a map from keys to values:
  \<^verbatim>\<open>Get\<close> is a lookup that gives nil for a missing key, \<^verbatim>\<open>Register\<close> stores a value.
\<close>

record 'h state =
  vfiles :: "addr \<rightharpoonup> 'h vagrantfile"
  next_addr :: addr
  scope_closers :: "origin \<Rightarrow> closer list"
  calls :: "call list"

text \<open>
  \<^verbatim>\<open>NewVagrantfile\<close> calls \<^verbatim>\<open>o.Broker()\<close> on its origin, so a nil origin panics.
\<close>

definition NewVagrantfile :: "'h state \<Rightarrow> origin option \<Rightarrow> (addr \<times> 'h state) outcome" where
  "NewVagrantfile st org =
     (case org of
        None \<Rightarrow> Panic NilDereference
      | Some oscope \<Rightarrow>
          (let n = next_addr st;
               v = \<lparr>cache = Map.empty, cleanup = [], origin = Some oscope,
                    registrations = Map.empty, root = None, sources = Map.empty,
                    internal = Some (Internal oscope n)\<rparr>
           in Return (n, st\<lparr>vfiles := (vfiles st)(n \<mapsto> v), next_addr := Suc n\<rparr>)))"

text \<open>
  \<^verbatim>\<open>clone\<close> of the instance at address \<open>a\<close>. The name only labels the logger. The
  copies of the two maps are new maps with the same entries. The last statement calls
  \<^verbatim>\<open>origin.Closer\<close> outside the \<^verbatim>\<open>if origin != nil\<close> that precedes it.
\<close>

definition clone ::
  "'h state \<Rightarrow> addr \<Rightarrow> string \<Rightarrow> origin option \<Rightarrow> (addr \<times> 'h state) outcome" where
  "clone st a name org =
     (case vfiles st a of
        None \<Rightarrow> Panic NilDereference
      | Some v \<Rightarrow>
          (let n = next_addr st;
               newV = \<lparr>cache = Map.empty, cleanup = [], origin = org,
                       registrations = registrations v, root = None, sources = sources v,
                       internal = (case org of
                                     Some oscope \<Rightarrow> Some (Internal oscope n)
                                   | None \<Rightarrow> internal v)\<rparr>
           in case org of
                None \<Rightarrow> Panic NilDereference
              | Some oscope \<Rightarrow>
                  Return (n, st\<lparr>vfiles := (vfiles st)(n \<mapsto> newV), next_addr := Suc n,
                               scope_closers := (scope_closers st)
                                 (oscope := scope_closers st oscope @ [CloseVagrantfile n])\<rparr>)))"

text \<open>The cache key of \<^verbatim>\<open>TargetConfig\<close>.\<close>

definition cid :: "string \<Rightarrow> string \<Rightarrow> string" where
  "cid name provider = name @ ''+'' @ provider"

text \<open>
  \<^verbatim>\<open>TargetConfig\<close> from \<^verbatim>\<open>newV.Init()\<close> on: \<open>v\<close> is the receiver at address \<open>a\<close>,
  \<open>newV\<close> the clone at address \<open>n\<close>.
\<close>

definition target_init ::
  "'h env \<Rightarrow> 'h state \<Rightarrow> addr \<Rightarrow> 'h vagrantfile \<Rightarrow> string \<Rightarrow> addr \<Rightarrow> 'h vagrantfile
     \<Rightarrow> ((error + addr) \<times> 'h state) outcome" where
  "target_init env st a v key n newV =
     (case Init env newV (calls st) of
        Panic p \<Rightarrow> Panic p
      | Return (Some e, newV1, tr) \<Rightarrow>
          Return (Inl (InitTargetFailed e),
                  st\<lparr>vfiles := (vfiles st)(n \<mapsto> newV1), calls := tr\<rparr>)
      | Return (None, newV1, tr) \<Rightarrow>
          Return (Inr n,
                  st\<lparr>vfiles := ((vfiles st)(n \<mapsto> newV1))(a \<mapsto> v\<lparr>cache := (cache v)(key \<mapsto> n)\<rparr>),
                     calls := tr\<rparr>))"

text \<open>\<^verbatim>\<open>TargetConfig\<close> from the clone up to the provider source.\<close>

definition target_clone ::
  "'h env \<Rightarrow> 'h state \<Rightarrow> addr \<Rightarrow> 'h vagrantfile \<Rightarrow> string \<Rightarrow> string \<Rightarrow> nat \<Rightarrow> 'h option
     \<Rightarrow> ((error + addr) \<times> 'h state) outcome" where
  "target_clone env st a v name provider raw resp =
     (case clone st a name (origin v) of
        Panic p \<Rightarrow> Panic p
      | Return (n, st1) \<Rightarrow>
          (case vfiles st1 n of
             None \<Rightarrow> Panic NilDereference
           | Some newV \<Rightarrow>
               (case Source env newV (Some \<lparr>Unfinalized = resp, Finalized = None\<rparr>)
                       VAGRANTFILE_TARGET of
                  (Some e, newV1) \<Rightarrow> Return (Inl (AddTargetSourceFailed e), st1)
                | (None, newV1) \<Rightarrow>
                    (let st2 = st1\<lparr>vfiles := (vfiles st1)(n \<mapsto> newV1)\<rparr>
                     in if provider \<noteq> []
                        then (let st3 = st2\<lparr>calls := calls st2 @ [ParseProviderCall provider raw]\<rparr>
                              in case ParseVagrantfileProvider env provider raw of
                                   Inl e \<Rightarrow> Return (Inl e, st3)
                                 | Inr resp1 \<Rightarrow>
                                     (case Source env newV1
                                             (Some \<lparr>Unfinalized = resp1, Finalized = None\<rparr>)
                                             VAGRANTFILE_PROVIDER of
                                        (Some e, newV2) \<Rightarrow>
                                          Return (Inl (AddProviderSourceFailed e), st3)
                                      | (None, newV2) \<Rightarrow>
                                          target_init env
                                            (st3\<lparr>vfiles := (vfiles st3)(n \<mapsto> newV2)\<rparr>)
                                            a v (cid name provider) n newV2))
                        else target_init env st2 a v (cid name provider) n newV1))))"

text \<open>
  \<^verbatim>\<open>TargetConfig\<close> on the instance at address \<open>a\<close>. The assertion
  \<^verbatim>\<open>subvm.(*vagrant_plugin_sdk.Config_RawRubyValue)\<close> has no \<^verbatim>\<open>ok\<close> result, so a value
  of another type panics. \<open>validateProvider\<close> is not used.
\<close>

definition TargetConfig ::
  "'h env \<Rightarrow> 'h state \<Rightarrow> addr \<Rightarrow> string \<Rightarrow> string \<Rightarrow> bool
     \<Rightarrow> ((error + addr) \<times> 'h state) outcome" where
  "TargetConfig env st a name provider validateProvider =
     (case vfiles st a of
        None \<Rightarrow> Panic NilDereference
      | Some v \<Rightarrow>
          (case cache v (cid name provider) of
             Some cv \<Rightarrow> Return (Inr cv, st)
           | None \<Rightarrow>
               (case GetValue v [''vm'', ''__defined_vms'', name] of
                  Panic p \<Rightarrow> Panic p
                | Return (Inl e) \<Rightarrow> Return (Inl e, st)
                | Return (Inr subvm) \<Rightarrow>
                    (if subvm = VNil then Return (Inl EmptyTargetValue, st)
                     else (case subvm of
                             VRawRuby raw \<Rightarrow>
                               (let st1 = st\<lparr>calls := calls st @ [ParseSubvmCall raw]\<rparr>
                                in case ParseVagrantfileSubvm env raw of
                                     Inl e \<Rightarrow> Return (Inl e, st1)
                                   | Inr resp \<Rightarrow>
                                       target_clone env st1 a v name provider raw resp)
                           | _ \<Rightarrow> Panic TypeAssertion)))))"

section \<open>Callers and derived notions\<close>

text \<open>
  The condition under which \<^verbatim>\<open>Init\<close> returns early with a memoized root: some location
  has a source, the highest of them is a valid root location, and its source holds a
  finalized tree.
\<close>

definition takes_fast_path :: "'h vagrantfile \<Rightarrow> bool" where
  "takes_fast_path v =
     (present_locations v \<noteq> [] \<and> last (present_locations v) \<in> ValidRootLocations
      \<and> (case sources v (last (present_locations v)) of
            None \<Rightarrow> False
          | Some s \<Rightarrow> finalized s \<noteq> None))"



text \<open>
  The lookup as the specification words it, to compare \<^verbatim>\<open>GetValue\<close> with: each of the
  three container shapes has one \<open>get\<close>, a string-keyed mapping and a tree wrapper by
  key, a heterogeneous-keyed mapping by the first entry whose key is the string or the
  symbol with the segment's text; a path is looked up segment by segment.
\<close>

fun spec_get :: "val \<Rightarrow> string \<Rightarrow> val option" where
  "spec_get (VStrMap sm) seg = map_of sm seg"
| "spec_get (VConfigData (Some d)) seg = map_of d seg"
| "spec_get (VIfaceMap im) seg =
     map_option snd (find (\<lambda>(key, x). key = VString seg \<or> key = VSymbol seg) im)"
| "spec_get x seg = None"

fun spec_lookup :: "val \<Rightarrow> string list \<Rightarrow> val option" where
  "spec_lookup x [] = Some x"
| "spec_lookup x (seg # rest) =
     (case spec_get x seg of None \<Rightarrow> None | Some y \<Rightarrow> spec_lookup y rest)"

text \<open>
  A caller of one instance: the calls it can make on the instance at address \<open>a\<close> after
  a target configuration was derived, and a sequence of such calls. A panic ends the
  sequence.
\<close>

datatype 'h request =
    CallTargetConfig string string bool
  | CallInit
  | CallSource "'h proto option" LoadLocation




text \<open>The state a call leaves behind; the state before it when the call panicked.\<close>

definition resulting_state :: "('a \<times> 'h state) outcome \<Rightarrow> 'h state \<Rightarrow> 'h state" where
  "resulting_state r st = (case r of Return (x, st1) \<Rightarrow> st1 | Panic p \<Rightarrow> st)"

text \<open>The calls to the Ruby client among the recorded calls, in order.\<close>

fun is_parse_call :: "call \<Rightarrow> bool" where
  "is_parse_call (ParseSubvmCall raw) = True"
| "is_parse_call (ParseProviderCall provider raw) = True"
| "is_parse_call c = False"

definition parser_calls :: "call list \<Rightarrow> call list" where
  "parser_calls tr = filter is_parse_call tr"


section \<open>Example instances\<close>

text \<open>
  A small world to evaluate the definitions in. The wire form of a tree is the tree
  itself, the one component keeps the overlay when it merges and changes nothing when it
  finalizes, the Ruby client answers every request with a fixed fragment, and the Go
  runtime visits keys in the order of the listing.
\<close>

definition demo_env :: "strmap env" where
  "demo_env =
     \<lparr>map_config = (\<lambda>h. Inr (Some (case h of None \<Rightarrow> [] | Some d \<Rightarrow> d))),
      map_hash = (\<lambda>d. Inr (Some d)),
      plugin_component = (\<lambda>p. None),
      config_merge = (\<lambda>p x y. Inr y),
      config_finalize = (\<lambda>p x. Inr x),
      ParseVagrantfileSubvm =
        (\<lambda>raw. Inr (Some [(''vm'', VConfigData (Some [(''box'', VString ''web'')]))])),
      ParseVagrantfileProvider = (\<lambda>provider raw. Inr (Some [])),
      range_order = (\<lambda>ks. ks)\<rparr>"

text \<open>The same world with a value mapper that cannot encode a tree.\<close>

definition failing_store_env :: "strmap env" where
  "failing_store_env = demo_env\<lparr>map_hash := (\<lambda>d. Inl (External 1))\<rparr>"

text \<open>An instance as \<^verbatim>\<open>NewVagrantfile\<close> makes it: nothing registered, no source, no Root.\<close>

definition fresh_vagrantfile :: "strmap vagrantfile" where
  "fresh_vagrantfile =
     \<lparr>cache = Map.empty, cleanup = [], origin = Some 0, registrations = Map.empty,
      root = None, sources = Map.empty, internal = Some (Internal 0 0)\<rparr>"

definition empty_state :: "strmap state" where
  "empty_state = \<lparr>vfiles = Map.empty, next_addr = 0, scope_closers = (\<lambda>s. []), calls = []\<rparr>"

text \<open>
  A resolved project: one namespace "vm" owned by plugin 7, two defined targets, and a
  nested option reached through all three container shapes.
\<close>

definition demo_tree :: strmap where
  "demo_tree =
     [(''vm'', VConfigData (Some
        [(''__defined_vm_keys'', VSlice [VSymbol ''web'']),
         (''__defined_vms'',
            VIfaceMap [(VSymbol ''web'', VRawRuby 1), (VString ''a+b'', VRawRuby 2)]),
         (''provider'',
            VConfigData (Some [(''opts'', VIfaceMap [(VSymbol ''memory'', VInt 512)])]))]))]"

definition demo_registration :: registration where
  "demo_registration =
     \<lparr>reg_identifier = ''vm'', plugin = Some 7, is_set = False, subregistrations = []\<rparr>"

definition demo_source :: "strmap source" where
  "demo_source =
     \<lparr>base = \<lparr>Unfinalized = Some demo_tree, Finalized = Some demo_tree\<rparr>,
      finalized = Some demo_tree, unfinalized = Some demo_tree\<rparr>"

definition demo_vagrantfile :: "strmap vagrantfile" where
  "demo_vagrantfile =
     \<lparr>cache = Map.empty, cleanup = [], origin = Some 0,
      registrations = [''vm'' \<mapsto> demo_registration],
      root = Some demo_tree,
      sources = [VAGRANTFILE_PROJECT \<mapsto> demo_source],
      internal = Some (Internal 0 0)\<rparr>"

definition demo_state :: "strmap state" where
  "demo_state =
     \<lparr>vfiles = [0 \<mapsto> demo_vagrantfile], next_addr = 1, scope_closers = (\<lambda>s. []),
      calls = []\<rparr>"

text \<open>The same project held by an instance that has no origin.\<close>

definition orphan_state :: "strmap state" where
  "orphan_state = demo_state\<lparr>vfiles := [0 \<mapsto> demo_vagrantfile\<lparr>origin := None\<rparr>]\<rparr>"

text \<open>The state after a target configuration was derived for the pair ("a+b", "c").\<close>

definition collision_state :: "strmap state" where
  "collision_state =
     resulting_state (TargetConfig demo_env demo_state 0 ''a+b'' ''c'' False) demo_state"

text \<open>Fragments not yet finalized, and instances that hold them.\<close>

definition unfinalized_source :: "strmap \<Rightarrow> strmap source" where
  "unfinalized_source t =
     \<lparr>base = \<lparr>Unfinalized = Some t, Finalized = None\<rparr>, finalized = None,
      unfinalized = Some t\<rparr>"

definition vm_tree :: strmap where
  "vm_tree = [(''vm'', VConfigData (Some [(''box'', VString ''base'')]))]"

definition vm_ssh_tree :: strmap where
  "vm_ssh_tree =
     [(''vm'', VConfigData (Some [(''box'', VString ''top'')])),
      (''ssh'', VConfigData (Some []))]"

definition overlay_tree :: strmap where
  "overlay_tree =
     [(''vm'', VConfigData (Some [(''box'', VString ''over'')])),
      (''winrm'', VString ''raw'')]"

text \<open>Two sources; the upper one defines "ssh", which no plugin has registered.\<close>

definition two_level_vagrantfile :: "strmap vagrantfile" where
  "two_level_vagrantfile =
     fresh_vagrantfile
       \<lparr>registrations := [''vm'' \<mapsto> demo_registration],
        sources := [VAGRANTFILE_BOX \<mapsto> unfinalized_source vm_tree,
                    VAGRANTFILE_PROJECT \<mapsto> unfinalized_source vm_ssh_tree]\<rparr>"

text \<open>One source that defines "vm" and the unregistered "ssh".\<close>

definition unregistered_vagrantfile :: "strmap vagrantfile" where
  "unregistered_vagrantfile =
     fresh_vagrantfile
       \<lparr>registrations := [''vm'' \<mapsto> demo_registration],
        sources := [VAGRANTFILE_PROJECT \<mapsto> unfinalized_source vm_ssh_tree]\<rparr>"

text \<open>One source, every namespace registered.\<close>

definition project_vagrantfile :: "strmap vagrantfile" where
  "project_vagrantfile =
     fresh_vagrantfile
       \<lparr>registrations := [''vm'' \<mapsto> demo_registration],
        sources := [VAGRANTFILE_PROJECT \<mapsto> unfinalized_source vm_tree]\<rparr>"

text \<open>No source; "vm", "ssh" and "winrm" are registered.\<close>

definition merge_vagrantfile :: "strmap vagrantfile" where
  "merge_vagrantfile =
     fresh_vagrantfile
       \<lparr>registrations := [''vm'' \<mapsto> demo_registration, ''ssh'' \<mapsto> demo_registration,
                           ''winrm'' \<mapsto> demo_registration]\<rparr>"

text \<open>One source whose "ssh" value is a string; a Root from an earlier initialization.\<close>

definition mistyped_tree :: strmap where
  "mistyped_tree =
     [(''vm'', VConfigData (Some [(''box'', VString ''top'')])), (''ssh'', VString ''x'')]"

definition mistyped_vagrantfile :: "strmap vagrantfile" where
  "mistyped_vagrantfile =
     merge_vagrantfile
       \<lparr>root := Some vm_tree,
        sources := [VAGRANTFILE_PROJECT \<mapsto> unfinalized_source mistyped_tree]\<rparr>"

text \<open>
  The resolved project after the target "web" was derived for provider "virtualbox",
  and after four more calls, the last of which derives the target "a+b" for provider "c".
\<close>

definition web_fragment :: strmap where
  "web_fragment = [(''vm'', VConfigData (Some [(''box'', VString ''web'')]))]"

definition web_calls :: "nat \<Rightarrow> string \<Rightarrow> call list" where
  "web_calls raw provider =
     [ParseSubvmCall raw, ParseProviderCall provider raw, ComponentCall 7,
      MergeCall 7
        (Some [(''__defined_vm_keys'', VSlice [VSymbol ''web'']),
               (''__defined_vms'',
                  VIfaceMap [(VSymbol ''web'', VRawRuby 1), (VString ''a+b'', VRawRuby 2)]),
               (''provider'',
                  VConfigData (Some [(''opts'', VIfaceMap [(VSymbol ''memory'', VInt 512)])]))])
        (Some [(''box'', VString ''web'')]),
      ComponentCall 7, ComponentCall 7, FinalizeCall 7 (Some [(''box'', VString ''web'')])]"

definition demo_clone :: "addr \<Rightarrow> strmap vagrantfile" where
  "demo_clone n =
     \<lparr>cache = Map.empty, cleanup = [], origin = Some 0,
      registrations = [''vm'' \<mapsto> demo_registration],
      root = Some web_fragment,
      sources = [VAGRANTFILE_PROJECT \<mapsto> demo_source,
                 VAGRANTFILE_TARGET \<mapsto> unfinalized_source web_fragment,
                 VAGRANTFILE_PROVIDER \<mapsto> unfinalized_source []],
      internal = Some (Internal 0 n)\<rparr>"

definition cached_state1 :: "strmap state" where
  "cached_state1 =
     \<lparr>vfiles = [0 \<mapsto> demo_vagrantfile\<lparr>cache := [''web+virtualbox'' \<mapsto> 1]\<rparr>,
                1 \<mapsto> demo_clone 1],
      next_addr = 2,
      scope_closers = (\<lambda>s. [])(0 := [CloseVagrantfile 1]),
      calls = web_calls 1 ''virtualbox''\<rparr>"

definition more_requests :: "strmap request list" where
  "more_requests =
     [CallSource None VAGRANTFILE_BOX, CallInit, CallTargetConfig ''db'' [] False,
      CallTargetConfig ''a+b'' ''c'' False]"

definition cached_state2 :: "strmap state" where
  "cached_state2 =
     \<lparr>vfiles = [0 \<mapsto> demo_vagrantfile\<lparr>cache := [''web+virtualbox'' \<mapsto> 1, ''a+b+c'' \<mapsto> 2]\<rparr>,
                1 \<mapsto> demo_clone 1, 2 \<mapsto> demo_clone 2],
      next_addr = 3,
      scope_closers = (\<lambda>s. [])(0 := [CloseVagrantfile 1, CloseVagrantfile 2]),
      calls = web_calls 1 ''virtualbox'' @ web_calls 2 ''c''\<rparr>"

text \<open>
  A Ruby client that answers with a fragment defining the unregistered "ssh", and the
  states after one and after two calls for the target "web": each call leaves a clone
  that could not be initialized.
\<close>

definition unregistered_parse_env :: "strmap env" where
  "unregistered_parse_env =
     demo_env\<lparr>ParseVagrantfileSubvm := (\<lambda>raw. Inr (Some [(''ssh'', VConfigData (Some []))]))\<rparr>"

definition failed_clone :: "addr \<Rightarrow> strmap vagrantfile" where
  "failed_clone n =
     \<lparr>cache = Map.empty, cleanup = [], origin = Some 0,
      registrations = [''vm'' \<mapsto> demo_registration],
      root = None,
      sources = [VAGRANTFILE_PROJECT \<mapsto> demo_source,
                 VAGRANTFILE_TARGET \<mapsto> unfinalized_source [(''ssh'', VConfigData (Some []))]],
      internal = Some (Internal 0 n)\<rparr>"

definition failed_state1 :: "strmap state" where
  "failed_state1 =
     \<lparr>vfiles = [0 \<mapsto> demo_vagrantfile, 1 \<mapsto> failed_clone 1],
      next_addr = 2,
      scope_closers = (\<lambda>s. [])(0 := [CloseVagrantfile 1]),
      calls = [ParseSubvmCall 1, ComponentCall 7]\<rparr>"

definition failed_state2 :: "strmap state" where
  "failed_state2 =
     \<lparr>vfiles = [0 \<mapsto> demo_vagrantfile, 1 \<mapsto> failed_clone 1, 2 \<mapsto> failed_clone 2],
      next_addr = 3,
      scope_closers = (\<lambda>s. [])(0 := [CloseVagrantfile 1, CloseVagrantfile 2]),
      calls = [ParseSubvmCall 1, ComponentCall 7, ParseSubvmCall 1, ComponentCall 7]\<rparr>"

section \<open>Evaluating the examples\<close>

lemmas model_defs =
  TargetConfig_def target_clone_def target_init_def clone_def cid_def GetValue_def
  getNamespace_def iface_of_map_def Source_def newSource_def generateConfig_def Init_def
  init_full_def present_locations_def all_locations_def ValidRootLocations_def generate_def
  merge_def finalize_def componentForKey_def merge_values_def setFinalized_def Let_def

lemmas demo_defs =
  demo_env_def failing_store_env_def fresh_vagrantfile_def demo_tree_def
  demo_registration_def demo_source_def demo_vagrantfile_def demo_state_def
  unfinalized_source_def vm_tree_def vm_ssh_tree_def overlay_tree_def
  two_level_vagrantfile_def unregistered_vagrantfile_def project_vagrantfile_def
  merge_vagrantfile_def mistyped_tree_def mistyped_vagrantfile_def web_fragment_def
  web_calls_def demo_clone_def cached_state1_def more_requests_def cached_state2_def
  unregistered_parse_env_def failed_clone_def failed_state1_def failed_state2_def

lemmas eval_defs = model_defs demo_defs

lemma NewVagrantfile_fresh:
  "NewVagrantfile empty_state (Some 0)
     = Return (0, empty_state\<lparr>vfiles := [0 \<mapsto> fresh_vagrantfile], next_addr := 1\<rparr>)"
  by (simp add: NewVagrantfile_def empty_state_def fresh_vagrantfile_def)

section \<open>Reading an instance\<close>

text \<open>
  C2 (as the code has it). On an instance whose Root is unset, \<^verbatim>\<open>GetConfig\<close>,
  \<^verbatim>\<open>getNamespace\<close> and \<^verbatim>\<open>GetValue\<close> with a non-empty path dereference the nil Root and
  panic; no "not initialized" error exists. \<^verbatim>\<open>GetValue\<close> with an empty path returns its
  "no lookup path provided" error before it reads Root.
\<close>

theorem read_accessors_panic_without_root:
  assumes "root v = None"
  shows "GetConfig v n = Panic NilDereference \<and> getNamespace v n = Panic NilDereference
         \<and> GetValue v (n # rest) = Panic NilDereference
         \<and> GetValue v [] = Return (Inl NoLookupPath)"
  using assms by (simp add: GetConfig_def getNamespace_def GetValue_def)

text \<open>The new instance is such an instance.\<close>

theorem read_accessors_panic_without_root_witness:
  "root fresh_vagrantfile = None \<and> GetConfig fresh_vagrantfile ''vm'' = Panic NilDereference
   \<and> getNamespace fresh_vagrantfile ''vm'' = Panic NilDereference
   \<and> GetValue fresh_vagrantfile [''vm'', ''box''] = Panic NilDereference"
proof -
  have h: "root fresh_vagrantfile = None" by (simp add: fresh_vagrantfile_def)
  show ?thesis
    using h read_accessors_panic_without_root [OF h, of "''vm''" "[''box'']"] by simp
qed

text \<open>
  C2 as stated fails: on a new instance, which has never been initialized,
  \<^verbatim>\<open>GetConfig\<close> does not return an error value, it panics.
\<close>

theorem GetConfig_not_initialized_counterexample:
  "GetConfig fresh_vagrantfile ''vm'' = Panic NilDereference"
  by (simp add: GetConfig_def fresh_vagrantfile_def)

text \<open>
  C5 at the input the claim singles out: with a Root that has no "vm" namespace,
  \<^verbatim>\<open>TargetNames\<close> returns the empty list, not the list holding "default". The default is
  appended only after the defined-keys list was found and held no symbol.
\<close>

theorem TargetNames_no_vm_namespace:
  "TargetNames (fresh_vagrantfile\<lparr>root := Some []\<rparr>) = Return ([], None)"
  by (simp add: TargetNames_def getNamespace_def fresh_vagrantfile_def)

text \<open>
  C8. When the "vm" namespace is absent or is not a tree, or its
  \<^verbatim>\<open>__defined_vm_keys\<close> entry is absent or is not a list, \<^verbatim>\<open>TargetNames\<close> returns the
  empty list without an error, and \<^verbatim>\<open>PrimaryTargetName\<close> indexes that list at 0: the
  call panics instead of returning a name or an error.
\<close>

theorem PrimaryTargetName_out_of_bounds:
  assumes "root v = Some data"
    and "map_of data ''vm'' = None
         \<or> (\<exists>x. map_of data ''vm'' = Some x \<and> (\<forall>c. x \<noteq> VConfigData c))
         \<or> (\<exists>vm. map_of data ''vm'' = Some (VConfigData (Some vm))
               \<and> (map_of vm ''__defined_vm_keys'' = None
                    \<or> (\<exists>y. map_of vm ''__defined_vm_keys'' = Some y \<and> (\<forall>l. y \<noteq> VSlice l))))"
  shows "TargetNames v = Return ([], None) \<and> PrimaryTargetName v = Panic IndexOutOfRange"
proof -
  have "TargetNames v = Return ([], None)"
    using assms
    by (auto simp: TargetNames_def getNamespace_def split: val.splits option.splits)
  then show ?thesis by (simp add: PrimaryTargetName_def)
qed

text \<open>A Root whose "vm" entry is a string, not a tree.\<close>

theorem PrimaryTargetName_out_of_bounds_witness:
  "TargetNames (fresh_vagrantfile\<lparr>root := Some [(''vm'', VString ''x'')]\<rparr>) = Return ([], None)
   \<and> PrimaryTargetName (fresh_vagrantfile\<lparr>root := Some [(''vm'', VString ''x'')]\<rparr>)
       = Panic IndexOutOfRange"
proof -
  let ?v = "fresh_vagrantfile\<lparr>root := Some [(''vm'', VString ''x'')]\<rparr>"
  have r: "root ?v = Some [(''vm'', VString ''x'')]" by simp
  have m: "\<exists>x. map_of [(''vm'', VString ''x'')] ''vm'' = Some x \<and> (\<forall>c. x \<noteq> VConfigData c)"
    by simp
  show ?thesis
    using PrimaryTargetName_out_of_bounds [of ?v "[(''vm'', VString ''x'')]"] r m by blast
qed

subsection \<open>Path lookup\<close>

lemma lookup_iface_find:
  "lookup_iface im seg = map_option snd (find (\<lambda>(key, x). key = VString seg \<or> key = VSymbol seg) im)"
  by (induction im seg rule: lookup_iface.induct) simp_all

lemma walk_spec:
  "walk path x segs = Return r \<Longrightarrow>
     r = (case spec_lookup x segs of Some y \<Rightarrow> Inr y | None \<Rightarrow> Inl (LookupFailed path))"
proof (induction segs arbitrary: x)
  case Nil
  then show ?case by simp
next
  case (Cons seg rest)
  show ?case
  proof (cases "spec_get x seg")
    case None
    with Cons.prems show ?thesis
      by (cases x) (auto simp: lookup_iface_find split: option.splits)
  next
    case (Some y)
    with Cons.prems have "walk path y rest = Return r"
      by (cases x) (auto simp: lookup_iface_find split: option.splits)
    from Cons.IH [OF this] Some show ?thesis by simp
  qed
qed

text \<open>
  C6 (as the code has it). For a non-empty path, whenever \<^verbatim>\<open>GetValue\<close> returns, its
  result is that of the specified lookup of the later segments, started at the
  namespace's mapping: each value is read in the one shape it has, a string-keyed
  mapping, a tree wrapper, or a heterogeneous-keyed mapping matched on the text of a
  string or symbol key. When a segment is not found the error is built from the full
  path alone; the segment that failed is not part of it.
\<close>

theorem GetValue_lookup:
  assumes "GetValue v (n # rest) = Return r"
  shows "\<exists>ns. getNamespace v n = Return ns
           \<and> r = (case spec_lookup (iface_of_map ns) rest of
                    Some x \<Rightarrow> Inr x
                  | None \<Rightarrow> Inl (LookupFailed (n # rest)))"
proof -
  from assms obtain ns where ns: "getNamespace v n = Return ns"
    by (auto simp: GetValue_def split: outcome.splits)
  with assms have "walk (n # rest) (iface_of_map ns) rest = Return r"
    by (simp add: GetValue_def iface_of_map_def)
  from walk_spec [OF this] ns show ?thesis by simp
qed

text \<open>
  A path through the three shapes in turn down to a leaf, and one that misses in the
  last of them.
\<close>

theorem GetValue_lookup_witness:
  "GetValue demo_vagrantfile [''vm'', ''provider'', ''opts'', ''memory''] = Return (Inr (VInt 512))
   \<and> GetValue demo_vagrantfile [''vm'', ''provider'', ''opts'', ''cpus'']
       = Return (Inl (LookupFailed [''vm'', ''provider'', ''opts'', ''cpus'']))"
proof -
  have a: "GetValue demo_vagrantfile [''vm'', ''provider'', ''opts'', ''memory''] = Return (Inr (VInt 512))"
    by (simp add: eval_defs)
  have b: "\<exists>r. GetValue demo_vagrantfile [''vm'', ''provider'', ''opts'', ''cpus''] = Return r"
    by (simp add: eval_defs)
  then obtain r where r: "GetValue demo_vagrantfile [''vm'', ''provider'', ''opts'', ''cpus''] = Return r"
    by blast
  from GetValue_lookup [OF r]
  have "r = Inl (LookupFailed [''vm'', ''provider'', ''opts'', ''cpus''])"
    by (auto simp: eval_defs)
  with a r show ?thesis by simp
qed

text \<open>
  C6 as stated fails: the error does not name the offending segment. The same path
  fails at its second segment under one Root and at its third under another, and both
  calls return the same error.
\<close>

theorem GetValue_error_counterexample:
  "GetValue (fresh_vagrantfile\<lparr>root := Some [(''vm'', VConfigData (Some []))]\<rparr>) [''vm'', ''a'', ''b'']
     = Return (Inl (LookupFailed [''vm'', ''a'', ''b'']))
   \<and> GetValue (fresh_vagrantfile\<lparr>root := Some [(''vm'', VConfigData (Some []))]\<rparr>) [''vm'', ''a'']
     = Return (Inl (LookupFailed [''vm'', ''a'']))
   \<and> GetValue (fresh_vagrantfile\<lparr>root := Some [(''vm'', VConfigData (Some [(''a'', VStrMap [])]))]\<rparr>)
        [''vm'', ''a'', ''b'']
     = Return (Inl (LookupFailed [''vm'', ''a'', ''b'']))
   \<and> GetValue (fresh_vagrantfile\<lparr>root := Some [(''vm'', VConfigData (Some [(''a'', VStrMap [])]))]\<rparr>)
        [''vm'', ''a'']
     = Return (Inr (VStrMap []))"
  by (simp add: eval_defs)

section \<open>Merging\<close>













section \<open>Initialization\<close>

lemma last_present_locations:
  assumes "sources v l = Some s" and "\<forall>l'. loc_value l < loc_value l' \<longrightarrow> sources v l' = None"
  shows "present_locations v \<noteq> [] \<and> last (present_locations v) = l"
proof (cases l)
  case VAGRANTFILE_BOX
  then show ?thesis using assms
    by (auto simp: present_locations_def all_locations_def) 
next
  case VAGRANTFILE_BASIS
  then show ?thesis using assms
    by (auto simp: present_locations_def all_locations_def) 
next
  case VAGRANTFILE_PROJECT
  then show ?thesis using assms
    by (auto simp: present_locations_def all_locations_def) 
next
  case VAGRANTFILE_TARGET
  then show ?thesis using assms
    by (auto simp: present_locations_def all_locations_def) 
next
  case VAGRANTFILE_PROVIDER
  then show ?thesis using assms
    by (auto simp: present_locations_def all_locations_def) 
qed

text \<open>
  C3. When the highest location that has a source is a valid root location and that
  source holds a finalized tree, \<^verbatim>\<open>Init\<close> returns no error, Root is that tree, nothing
  else of the instance changes, and the list of recorded calls is the same as before: no
  component was asked to merge or to finalize.
\<close>

theorem Init_fast_path:
  assumes "sources v l = Some s"
    and "\<forall>l'. loc_value l < loc_value l' \<longrightarrow> sources v l' = None"
    and "l \<in> ValidRootLocations"
    and "finalized s = Some f"
  shows "Init env v tr = Return (None, v\<lparr>root := Some f\<rparr>, tr)"
  using last_present_locations [OF assms(1,2)] assms
  by (simp add: Init_def Let_def)

text \<open>The resolved project, its Root cleared, gets its Root back from the project source.\<close>

theorem Init_fast_path_witness:
  "root (demo_vagrantfile\<lparr>root := None\<rparr>) = None
   \<and> Init demo_env (demo_vagrantfile\<lparr>root := None\<rparr>) [] = Return (None, demo_vagrantfile, [])"
proof -
  let ?v = "demo_vagrantfile\<lparr>root := None\<rparr>"
  have s: "sources ?v VAGRANTFILE_PROJECT = Some demo_source"
    by (simp add: demo_vagrantfile_def)
  have h: "\<forall>l'. loc_value VAGRANTFILE_PROJECT < loc_value l' \<longrightarrow> sources ?v l' = None"
  proof (intro allI impI)
    fix l' assume "loc_value VAGRANTFILE_PROJECT < loc_value l'"
    then show "sources ?v l' = None" by (cases l') (simp_all add: demo_vagrantfile_def)
  qed
  have m: "VAGRANTFILE_PROJECT \<in> ValidRootLocations" by (simp add: ValidRootLocations_def)
  have f: "finalized demo_source = Some demo_tree" by (simp add: demo_source_def)
  have e: "?v\<lparr>root := Some demo_tree\<rparr> = demo_vagrantfile" by (simp add: demo_vagrantfile_def)
  show ?thesis using Init_fast_path [OF s h m f, of demo_env "[]"] e by simp
qed

lemma finalize_keys_no_error:
  "finalize_keys env v d ks result tr = ((r, None), tr') \<Longrightarrow> r \<noteq> None"
proof (induction ks arbitrary: result tr)
  case Nil
  then show ?case by auto
next
  case (Cons k ks)
  then show ?case
    by (auto simp: Let_def split: prod.splits sum.splits val.splits option.splits)
qed

lemma finalize_no_error:
  "finalize env v c tr = Return ((r, None), tr') \<Longrightarrow> r \<noteq> None"
  by (auto simp: finalize_def split: option.splits dest: finalize_keys_no_error)

lemma finalize_keys_type_error:
  assumes pre: "\<forall>k'\<in>set pre. \<exists>reg p data r'. registrations v k' = Some reg \<and> plugin reg = Some p
                  \<and> plugin_component env p = None \<and> map_of d k' = Some (VConfigData data)
                  \<and> config_finalize env p data = Inr r'"
    and k: "registrations v k = Some reg" "plugin reg = Some p" "plugin_component env p = None"
    and x: "map_of d k = Some x" "\<forall>c. x \<noteq> VConfigData c"
  shows "\<exists>tr'. finalize_keys env v d (pre @ k # post) result tr
           = ((None, Some (InvalidConfigType k (type_name x))), tr')"
  using pre
proof (induction pre arbitrary: result tr)
  case Nil
  have "componentForKey env v k tr = (Inr p, tr @ [ComponentCall p])"
    using k by (simp add: componentForKey_def)
  then show ?case using x by (cases x) (simp_all add: Let_def)
next
  case (Cons k' pre)
  from Cons.prems obtain reg' p' data r' where h: "registrations v k' = Some reg'"
    "plugin reg' = Some p'" "plugin_component env p' = None"
    "map_of d k' = Some (VConfigData data)" "config_finalize env p' data = Inr r'"
    by auto
  have c: "componentForKey env v k' tr = (Inr p', tr @ [ComponentCall p'])"
    using h by (simp add: componentForKey_def)
  from Cons.prems have "\<forall>k'\<in>set pre. \<exists>reg p data r'. registrations v k' = Some reg \<and> plugin reg = Some p
                  \<and> plugin_component env p = None \<and> map_of d k' = Some (VConfigData data)
                  \<and> config_finalize env p data = Inr r'" by simp
  from Cons.IH [OF this] c h show ?case by (simp add: Let_def)
qed

lemma present_locations_source:
  "present_locations v \<noteq> [] \<Longrightarrow> \<exists>s. sources v (last (present_locations v)) = Some s"
proof -
  assume ne: "present_locations v \<noteq> []"
  then have "last (present_locations v) \<in> set (present_locations v)" by simp
  then show ?thesis by (auto simp: present_locations_def)
qed

text \<open>
  C1 (as the code has it). When \<^verbatim>\<open>Init\<close> does not return early, the error of a failed
  step is the error \<^verbatim>\<open>Init\<close> returns, and Root is as follows. If the merge of the
  sources fails, the instance is left as it was, so Root keeps the value it had before
  the call. If finalize fails, Root is assigned what finalize handed back next to the
  error; when finalize, having finalized the namespaces it visited before, comes to a
  namespace that has a usable component and whose value is not a tree, it hands back
  nil with the type error, so Root is nil. If storing the finalized payload fails, Root
  is the complete finalized tree, and the source keeps that tree as its finalized form.
\<close>

theorem Init_failure:
  assumes full: "\<not> takes_fast_path v"
    and locs: "locs = present_locations v"
  shows "(generate env v locs tr = Return (Inl e, tra) \<longrightarrow>
            Init env v tr = Return (Some e, v, tra))
       \<and> (generate env v locs tr = Return (Inr c, tra)
            \<and> finalize env v c tra = Return ((r, Some e), trb) \<longrightarrow>
            Init env v tr = Return (Some e, v\<lparr>root := r\<rparr>, trb))
       \<and> (generate env v locs tr = Return (Inr (Some d), tra)
            \<and> range_order env (remdups (map fst d)) = pre @ k # post
            \<and> (\<forall>k'. k' \<in> set pre \<longrightarrow>
                  (\<exists>reg' p' data r'. registrations v k' = Some reg' \<and> plugin reg' = Some p'
                     \<and> plugin_component env p' = None
                     \<and> map_of d k' = Some (VConfigData data)
                     \<and> config_finalize env p' data = Inr r'))
            \<and> registrations v k = Some reg \<and> plugin reg = Some p
            \<and> plugin_component env p = None
            \<and> map_of d k = Some x \<and> (\<forall>cd. x \<noteq> VConfigData cd) \<longrightarrow>
            (\<exists>trc. Init env v tr
               = Return (Some (InvalidConfigType k (type_name x)), v\<lparr>root := None\<rparr>, trc)))
       \<and> (generate env v locs tr = Return (Inr c, tra)
            \<and> finalize env v c tra = Return ((r, None), trb)
            \<and> locs \<noteq> [] \<and> last locs \<in> ValidRootLocations
            \<and> sources v (last locs) = Some s
            \<and> setFinalized env s r = Return (sf, Some e) \<longrightarrow>
            Init env v tr
              = Return (Some e, v\<lparr>root := r, sources := (sources v)(last locs \<mapsto> sf)\<rparr>, trb)
            \<and> r \<noteq> None \<and> finalized sf = r)"
proof -
  have init: "Init env v tr =
     (if locs \<noteq> [] \<and> last locs \<in> ValidRootLocations
      then (case sources v (last locs) of
              None \<Rightarrow> Panic NilDereference
            | Some s \<Rightarrow> init_full env v locs (Some (last locs, s)) tr)
      else init_full env v locs None tr)"
    using full locs
    by (auto simp: Init_def Let_def takes_fast_path_def split: option.splits)
  have a: "generate env v locs tr = Return (Inl e, tra) \<Longrightarrow>
            Init env v tr = Return (Some e, v, tra)"
    using present_locations_source [of v] locs
    by (auto simp: init init_full_def split: option.splits)
  have b: "\<And>c r e trb. generate env v locs tr = Return (Inr c, tra) \<Longrightarrow>
            finalize env v c tra = Return ((r, Some e), trb) \<Longrightarrow>
            Init env v tr = Return (Some e, v\<lparr>root := r\<rparr>, trb)"
    using present_locations_source [of v] locs
    by (auto simp: init init_full_def split: option.splits)
  have b2: "generate env v locs tr = Return (Inr (Some d), tra) \<Longrightarrow>
            range_order env (remdups (map fst d)) = pre @ k # post \<Longrightarrow>
            (\<forall>k'. k' \<in> set pre \<longrightarrow>
                  (\<exists>reg' p' data r'. registrations v k' = Some reg' \<and> plugin reg' = Some p'
                     \<and> plugin_component env p' = None
                     \<and> map_of d k' = Some (VConfigData data)
                     \<and> config_finalize env p' data = Inr r')) \<Longrightarrow>
            registrations v k = Some reg \<Longrightarrow> plugin reg = Some p \<Longrightarrow>
            plugin_component env p = None \<Longrightarrow>
            map_of d k = Some x \<Longrightarrow> (\<forall>cd. x \<noteq> VConfigData cd) \<Longrightarrow>
            \<exists>trc. Init env v tr
               = Return (Some (InvalidConfigType k (type_name x)), v\<lparr>root := None\<rparr>, trc)"
  proof -
    assume g: "generate env v locs tr = Return (Inr (Some d), tra)"
      and o: "range_order env (remdups (map fst d)) = pre @ k # post"
      and pre: "\<forall>k'. k' \<in> set pre \<longrightarrow>
                  (\<exists>reg' p' data r'. registrations v k' = Some reg' \<and> plugin reg' = Some p'
                     \<and> plugin_component env p' = None
                     \<and> map_of d k' = Some (VConfigData data)
                     \<and> config_finalize env p' data = Inr r')"
      and k: "registrations v k = Some reg" "plugin reg = Some p" "plugin_component env p = None"
      and x: "map_of d k = Some x" "\<forall>cd. x \<noteq> VConfigData cd"
    from pre have pre': "\<forall>k'\<in>set pre. \<exists>reg p data r'. registrations v k' = Some reg
                  \<and> plugin reg = Some p \<and> plugin_component env p = None
                  \<and> map_of d k' = Some (VConfigData data)
                  \<and> config_finalize env p data = Inr r'" by blast
    from finalize_keys_type_error [OF pre' k x, of post "[]" tra] o
    obtain trc where "finalize env v (Some d) tra
        = Return ((None, Some (InvalidConfigType k (type_name x))), trc)"
      by (auto simp: finalize_def)
    from b [OF g this] show ?thesis by blast
  qed
  have c: "generate env v locs tr = Return (Inr c, tra) \<Longrightarrow>
            finalize env v c tra = Return ((r, None), trb) \<Longrightarrow>
            locs \<noteq> [] \<Longrightarrow> last locs \<in> ValidRootLocations \<Longrightarrow>
            sources v (last locs) = Some s \<Longrightarrow>
            setFinalized env s r = Return (sf, Some e) \<Longrightarrow>
            Init env v tr
              = Return (Some e, v\<lparr>root := r, sources := (sources v)(last locs \<mapsto> sf)\<rparr>, trb)
            \<and> r \<noteq> None \<and> finalized sf = r"
    by (auto simp: init init_full_def setFinalized_def Let_def
          split: option.splits sum.splits dest: finalize_no_error)
  from a b [of c r e trb] b2 c show ?thesis by blast
qed

text \<open>
  One instance for each case: the merge of two sources fails on the unregistered "ssh";
  finalize fails on it after "vm" was finalized; finalize comes to the registered "ssh",
  whose value is a string, and the Root of an earlier initialization becomes nil; the
  value mapper cannot encode the finalized tree.
\<close>

theorem Init_failure_witness:
  "Init demo_env two_level_vagrantfile []
     = Return (Some (NoPluginSet ''ssh''), two_level_vagrantfile,
               [ComponentCall 7,
                MergeCall 7 (Some [(''box'', VString ''base'')]) (Some [(''box'', VString ''top'')])])
   \<and> Init demo_env unregistered_vagrantfile []
     = Return (Some (NoPluginSet ''ssh''),
               unregistered_vagrantfile
                 \<lparr>root := Some [(''vm'', VConfigData (Some [(''box'', VString ''top'')]))]\<rparr>,
               [ComponentCall 7, FinalizeCall 7 (Some [(''box'', VString ''top'')])])
   \<and> root mistyped_vagrantfile = Some vm_tree
   \<and> Init demo_env mistyped_vagrantfile []
     = Return (Some (InvalidConfigType ''ssh'' ''string''),
               mistyped_vagrantfile\<lparr>root := None\<rparr>,
               [ComponentCall 7, FinalizeCall 7 (Some [(''box'', VString ''top'')]),
                ComponentCall 7])
   \<and> Init failing_store_env project_vagrantfile []
     = Return (Some (External 1),
               project_vagrantfile
                 \<lparr>root := Some vm_tree,
                  sources := (sources project_vagrantfile)
                    (VAGRANTFILE_PROJECT \<mapsto> (unfinalized_source vm_tree)\<lparr>finalized := Some vm_tree\<rparr>)\<rparr>,
               [ComponentCall 7, FinalizeCall 7 (Some [(''box'', VString ''base'')])])"
proof -
  have f1: "\<not> takes_fast_path two_level_vagrantfile"
    by (simp add: takes_fast_path_def eval_defs)
  have l1: "[VAGRANTFILE_BOX, VAGRANTFILE_PROJECT] = present_locations two_level_vagrantfile"
    by (simp add: eval_defs)
  have g1: "generate demo_env two_level_vagrantfile [VAGRANTFILE_BOX, VAGRANTFILE_PROJECT] []
              = Return (Inl (NoPluginSet ''ssh''),
                  [ComponentCall 7,
                   MergeCall 7 (Some [(''box'', VString ''base'')]) (Some [(''box'', VString ''top'')])])"
    by (simp add: eval_defs)
  have a: "Init demo_env two_level_vagrantfile []
     = Return (Some (NoPluginSet ''ssh''), two_level_vagrantfile,
               [ComponentCall 7,
                MergeCall 7 (Some [(''box'', VString ''base'')]) (Some [(''box'', VString ''top'')])])"
    using Init_failure [OF f1 l1, where env = demo_env and tr = "[]"
        and e = "NoPluginSet ''ssh''", THEN conjunct1] g1
    by blast
  have f2: "\<not> takes_fast_path unregistered_vagrantfile"
    by (simp add: takes_fast_path_def eval_defs)
  have l2: "[VAGRANTFILE_PROJECT] = present_locations unregistered_vagrantfile"
    by (simp add: eval_defs)
  have g2: "generate demo_env unregistered_vagrantfile [VAGRANTFILE_PROJECT] []
              = Return (Inr (Some vm_ssh_tree), [])"
    by (simp add: eval_defs)
  have z2: "finalize demo_env unregistered_vagrantfile (Some vm_ssh_tree) []
              = Return ((Some [(''vm'', VConfigData (Some [(''box'', VString ''top'')]))],
                         Some (NoPluginSet ''ssh'')),
                        [ComponentCall 7, FinalizeCall 7 (Some [(''box'', VString ''top'')])])"
    by (simp add: eval_defs)
  have b: "Init demo_env unregistered_vagrantfile []
     = Return (Some (NoPluginSet ''ssh''),
               unregistered_vagrantfile
                 \<lparr>root := Some [(''vm'', VConfigData (Some [(''box'', VString ''top'')]))]\<rparr>,
               [ComponentCall 7, FinalizeCall 7 (Some [(''box'', VString ''top'')])])"
    using Init_failure [OF f2 l2, where env = demo_env and tr = "[]"
        and e = "NoPluginSet ''ssh''" and c = "Some vm_ssh_tree" and tra = "[]",
        THEN conjunct2, THEN conjunct1] g2 z2
    by blast
  have f4: "\<not> takes_fast_path mistyped_vagrantfile"
    by (simp add: takes_fast_path_def eval_defs)
  have l4: "[VAGRANTFILE_PROJECT] = present_locations mistyped_vagrantfile"
    by (simp add: eval_defs)
  have h4: "generate demo_env mistyped_vagrantfile [VAGRANTFILE_PROJECT] []
              = Return (Inr (Some mistyped_tree), [])
            \<and> range_order demo_env (remdups (map fst mistyped_tree)) = [''vm''] @ ''ssh'' # []
            \<and> (\<forall>k'. k' \<in> set [''vm''] \<longrightarrow>
                  (\<exists>reg' p' data r'. registrations mistyped_vagrantfile k' = Some reg'
                     \<and> plugin reg' = Some p' \<and> plugin_component demo_env p' = None
                     \<and> map_of mistyped_tree k' = Some (VConfigData data)
                     \<and> config_finalize demo_env p' data = Inr r'))
            \<and> registrations mistyped_vagrantfile ''ssh'' = Some demo_registration
            \<and> plugin demo_registration = Some 7
            \<and> plugin_component demo_env 7 = None
            \<and> map_of mistyped_tree ''ssh'' = Some (VString ''x'')
            \<and> (\<forall>cd. VString ''x'' \<noteq> VConfigData cd)"
    by (simp add: eval_defs)
  have r4: "root mistyped_vagrantfile = Some vm_tree" by (simp add: eval_defs)
  have "\<exists>trc. Init demo_env mistyped_vagrantfile []
          = Return (Some (InvalidConfigType ''ssh'' (type_name (VString ''x''))),
                    mistyped_vagrantfile\<lparr>root := None\<rparr>, trc)"
    using Init_failure [OF f4 l4, where env = demo_env and tr = "[]" and d = mistyped_tree
        and tra = "[]" and pre = "[''vm'']" and k = "''ssh''" and post = "[]"
        and reg = demo_registration and p = 7 and x = "VString ''x''",
        THEN conjunct2, THEN conjunct2, THEN conjunct1] h4
    by blast
  then have d: "Init demo_env mistyped_vagrantfile []
     = Return (Some (InvalidConfigType ''ssh'' ''string''),
               mistyped_vagrantfile\<lparr>root := None\<rparr>,
               [ComponentCall 7, FinalizeCall 7 (Some [(''box'', VString ''top'')]),
                ComponentCall 7])"
    by (simp add: eval_defs)
  have f3: "\<not> takes_fast_path project_vagrantfile"
    by (simp add: takes_fast_path_def eval_defs)
  have l3: "[VAGRANTFILE_PROJECT] = present_locations project_vagrantfile"
    by (simp add: eval_defs)
  have g3: "generate failing_store_env project_vagrantfile [VAGRANTFILE_PROJECT] []
              = Return (Inr (Some vm_tree), [])"
    by (simp add: eval_defs)
  have z3: "finalize failing_store_env project_vagrantfile (Some vm_tree) []
              = Return ((Some vm_tree, None),
                        [ComponentCall 7, FinalizeCall 7 (Some [(''box'', VString ''base'')])])"
    by (simp add: eval_defs)
  have v3: "[VAGRANTFILE_PROJECT] \<noteq> [] \<and> last [VAGRANTFILE_PROJECT] \<in> ValidRootLocations
            \<and> sources project_vagrantfile (last [VAGRANTFILE_PROJECT]) = Some (unfinalized_source vm_tree)"
    by (simp add: eval_defs)
  have s3: "setFinalized failing_store_env (unfinalized_source vm_tree) (Some vm_tree)
              = Return ((unfinalized_source vm_tree)\<lparr>finalized := Some vm_tree\<rparr>, Some (External 1))"
    by (simp add: eval_defs)
  have c: "Init failing_store_env project_vagrantfile []
     = Return (Some (External 1),
               project_vagrantfile
                 \<lparr>root := Some vm_tree,
                  sources := (sources project_vagrantfile)
                    (VAGRANTFILE_PROJECT \<mapsto> (unfinalized_source vm_tree)\<lparr>finalized := Some vm_tree\<rparr>)\<rparr>,
               [ComponentCall 7, FinalizeCall 7 (Some [(''box'', VString ''base'')])])"
    using Init_failure [OF f3 l3, where env = failing_store_env and tr = "[]"
        and e = "External 1" and tra = "[]" and c = "Some vm_tree" and r = "Some vm_tree"
        and trb = "[ComponentCall 7, FinalizeCall 7 (Some [(''box'', VString ''base'')])]"
        and s = "unfinalized_source vm_tree"
        and sf = "(unfinalized_source vm_tree)\<lparr>finalized := Some vm_tree\<rparr>",
        THEN conjunct2, THEN conjunct2, THEN conjunct2] g3 z3 v3 s3
    by simp
  from a b r4 d c show ?thesis by blast
qed

text \<open>
  C1 as stated fails: Root was unset before the call, storing the finalized payload
  failed, \<^verbatim>\<open>Init\<close> returned that error, and Root holds the finalized tree.
\<close>

theorem Init_failure_sets_root_counterexample:
  "root project_vagrantfile = None
   \<and> Init failing_store_env project_vagrantfile []
     = Return (Some (External 1),
               project_vagrantfile
                 \<lparr>root := Some [(''vm'', VConfigData (Some [(''box'', VString ''base'')]))],
                  sources := (sources project_vagrantfile)
                    (VAGRANTFILE_PROJECT \<mapsto>
                       (unfinalized_source vm_tree)
                         \<lparr>finalized :=
                            Some [(''vm'', VConfigData (Some [(''box'', VString ''base'')]))]\<rparr>)\<rparr>,
               [ComponentCall 7, FinalizeCall 7 (Some [(''box'', VString ''base'')])])"
  by (simp add: eval_defs)

section \<open>Target configurations\<close>

text \<open>
  C9. \<^verbatim>\<open>clone\<close> with a nil origin panics on the nil interface at \<^verbatim>\<open>origin.Closer\<close>, and
  so does \<^verbatim>\<open>TargetConfig\<close> on an instance without origin, once the cache has missed, the
  target's raw definition was found and the Ruby client has parsed it.
\<close>

theorem clone_nil_origin:
  "clone st a name None = Panic NilDereference
   \<and> (vfiles st a = Some v \<and> origin v = None \<and> cache v (cid name provider) = None
        \<and> GetValue v [''vm'', ''__defined_vms'', name] = Return (Inr (VRawRuby raw))
        \<and> ParseVagrantfileSubvm env raw = Inr resp \<longrightarrow>
      TargetConfig env st a name provider vp = Panic NilDereference)"
  by (auto simp: clone_def TargetConfig_def target_clone_def Let_def split: option.splits)

text \<open>The resolved project without an origin, asked for its target "web".\<close>

theorem clone_nil_origin_witness:
  "origin (demo_vagrantfile\<lparr>origin := None\<rparr>) = None
   \<and> clone orphan_state 0 ''web'' None = Panic NilDereference
   \<and> TargetConfig demo_env orphan_state 0 ''web'' [] False = Panic NilDereference"
proof -
  have h: "vfiles orphan_state 0 = Some (demo_vagrantfile\<lparr>origin := None\<rparr>)
           \<and> origin (demo_vagrantfile\<lparr>origin := None\<rparr>) = None
           \<and> cache (demo_vagrantfile\<lparr>origin := None\<rparr>) (cid ''web'' []) = None
           \<and> GetValue (demo_vagrantfile\<lparr>origin := None\<rparr>) [''vm'', ''__defined_vms'', ''web'']
               = Return (Inr (VRawRuby 1))
           \<and> ParseVagrantfileSubvm demo_env 1
               = Inr (Some [(''vm'', VConfigData (Some [(''box'', VString ''web'')]))])"
    by (simp add: orphan_state_def eval_defs)
  show ?thesis
    using clone_nil_origin [of orphan_state 0 "''web''" "demo_vagrantfile\<lparr>origin := None\<rparr>" "[]" 1
        demo_env "Some [(''vm'', VConfigData (Some [(''box'', VString ''web'')]))]" False] h
    by simp
qed




lemma target_init_Inr:
  "target_init env st a v key n newV = Return (Inr m, st1) \<Longrightarrow>
     m = n \<and> next_addr st1 = next_addr st
     \<and> vfiles st1 a = Some (v\<lparr>cache := (cache v)(key \<mapsto> n)\<rparr>)"
  by (auto simp: target_init_def split: outcome.splits option.splits prod.splits)


lemma target_clone_Inr:
  "target_clone env st a v name provider raw resp = Return (Inr m, st1) \<Longrightarrow>
     vfiles st1 a = Some (v\<lparr>cache := (cache v)(cid name provider \<mapsto> m)\<rparr>)"
  by (auto simp: target_clone_def Let_def
      split: outcome.splits option.splits prod.splits if_splits sum.splits
      dest!: target_init_Inr)

lemma TargetConfig_caches:
  "TargetConfig env st a name provider vp = Return (Inr n, st1) \<Longrightarrow>
     \<exists>v. vfiles st1 a = Some v \<and> cache v (cid name provider) = Some n"
  by (auto simp: TargetConfig_def Let_def
      split: outcome.splits option.splits if_splits sum.splits val.splits
      dest!: target_clone_Inr)

lemma TargetConfig_hit:
  "vfiles st a = Some v \<Longrightarrow> cache v (cid name provider) = Some n \<Longrightarrow>
     TargetConfig env st a name provider vp = Return (Inr n, st)"
  by (simp add: TargetConfig_def)







lemma parser_calls_append [simp]: "parser_calls (xs @ ys) = parser_calls xs @ parser_calls ys"
  by (simp add: parser_calls_def)

lemma parser_calls_Nil [simp]: "parser_calls [] = []"
  by (simp add: parser_calls_def)

lemma parser_calls_Cons [simp]:
  "parser_calls (c # cs) = (if is_parse_call c then c # parser_calls cs else parser_calls cs)"
  by (simp add: parser_calls_def)































text \<open>
  C10. The cache key joins name and provider with a "+", so the pairs ("a+b", "c") and
  ("a", "b+c") have the same key; and once \<^verbatim>\<open>TargetConfig\<close> has returned an instance for
  one pair, a call for any pair with the same key returns that instance from the cache.
\<close>

theorem cache_key_collision:
  "cid ''a+b'' ''c'' = cid ''a'' ''b+c''
   \<and> (TargetConfig env st a name1 provider1 vp = Return (Inr n, st1)
        \<and> cid name1 provider1 = cid name2 provider2 \<longrightarrow>
      TargetConfig env st1 a name2 provider2 vp' = Return (Inr n, st1))"
proof (intro conjI impI)
  show "cid ''a+b'' ''c'' = cid ''a'' ''b+c''" by (simp add: cid_def)
next
  assume h: "TargetConfig env st a name1 provider1 vp = Return (Inr n, st1)
        \<and> cid name1 provider1 = cid name2 provider2"
  with TargetConfig_caches [of env st a name1 provider1 vp n st1]
  obtain v where "vfiles st1 a = Some v" and "cache v (cid name2 provider2) = Some n"
    by auto
  then show "TargetConfig env st1 a name2 provider2 vp' = Return (Inr n, st1)"
    by (rule TargetConfig_hit)
qed

text \<open>
  The project defines a target "a+b" and no target "a". A call for ("a", "b+c") fails at
  first, and returns the instance derived for ("a+b", "c") once that one is cached.
\<close>

theorem cache_key_collision_witness:
  "TargetConfig demo_env demo_state 0 ''a'' ''b+c'' False
     = Return (Inl (LookupFailed [''vm'', ''__defined_vms'', ''a'']), demo_state)
   \<and> TargetConfig demo_env demo_state 0 ''a+b'' ''c'' False = Return (Inr 1, collision_state)
   \<and> TargetConfig demo_env collision_state 0 ''a'' ''b+c'' False = Return (Inr 1, collision_state)"
proof -
  have a: "TargetConfig demo_env demo_state 0 ''a'' ''b+c'' False
     = Return (Inl (LookupFailed [''vm'', ''__defined_vms'', ''a'']), demo_state)"
    by (simp add: eval_defs)
  have "\<exists>st. TargetConfig demo_env demo_state 0 ''a+b'' ''c'' False = Return (Inr 1, st)"
    by (simp add: eval_defs)
  then have b: "TargetConfig demo_env demo_state 0 ''a+b'' ''c'' False = Return (Inr 1, collision_state)"
    by (auto simp: collision_state_def resulting_state_def)
  have c: "cid ''a+b'' ''c'' = cid ''a'' ''b+c''" by (simp add: cid_def)
  show ?thesis
    using a b c cache_key_collision [of demo_env demo_state 0 "''a+b''" "''c''" False 1
        collision_state "''a''" "''b+c''" False]
    by simp
qed

end
